theory Spec2Isabelle
  imports Complex_Main
begin

section \<open>Common notions\<close>

text \<open>
  Python byte strings and text strings are both modelled as \<^typ>\<open>string\<close> (a list of
  8-bit characters); text outside ASCII is its UTF-8 encoding.  Python floats that the
  program only computes with on exactly representable values are modelled as
  \<^typ>\<open>rat\<close>.
\<close>

type_synonym bytes = string
type_synonym pyfloat = rat

text \<open>Python \<^verbatim>\<open>int(x)\<close> on a float: truncation towards zero.\<close>

definition py_int :: "pyfloat \<Rightarrow> int" where
  "py_int x = (if 0 \<le> x then \<lfloor>x\<rfloor> else \<lceil>x\<rceil>)"

text \<open>The accented letters of the program's Portuguese messages, in UTF-8.\<close>

definition a_acute :: string where "a_acute = [CHR 0xC3, CHR 0xA1]"
definition a_tilde :: string where "a_tilde = [CHR 0xC3, CHR 0xA3]"
definition c_cedil :: string where "c_cedil = [CHR 0xC3, CHR 0xA7]"
definition i_acute :: string where "i_acute = [CHR 0xC3, CHR 0xAD]"

section \<open>The live pipeline: \<^verbatim>\<open>realtime_transcription.py\<close>\<close>

subsection \<open>Audio settings of \<^verbatim>\<open>RealTimeTranscriber.__init__\<close>\<close>

definition RATE :: int where "RATE = 16000"
definition CHUNK :: int where "CHUNK = 1024"
definition RECORD_SECONDS :: int where "RECORD_SECONDS = 3"

text \<open>
  \<^verbatim>\<open>frames_per_chunk = int(self.RATE / self.CHUNK * self.RECORD_SECONDS)\<close>.
  The quotient 16000 / 1024 = 15.625 and the product 46.875 are binary fractions, so the
  float computation is exact and agrees with the rational one.
\<close>

definition frames_per_chunk :: int where
  "frames_per_chunk = py_int (of_int RATE / of_int CHUNK * of_int RECORD_SECONDS)"

subsection \<open>The capture loop \<^verbatim>\<open>_record_audio\<close>\<close>

type_synonym frame = bytes
type_synonym chunk = "frame list"

record rec_state =
  frames :: "frame list"
  chunk_count :: int
  audio_queue :: "chunk list"
  rec_log :: "string list"

text \<open>
  The body of one loop iteration after \<^verbatim>\<open>self.stream.read\<close> returned \<open>data\<close>:
  append, count, and on a full chunk put a copy on the queue and reset.
\<close>

definition record_body :: "int \<Rightarrow> frame \<Rightarrow> rec_state \<Rightarrow> rec_state" where
  "record_body fpc data s =
     (let fs = frames s @ [data]; c = chunk_count s + 1 in
      if c \<ge> fpc
      then s\<lparr>frames := [], chunk_count := 0, audio_queue := audio_queue s @ [fs]\<rparr>
      else s\<lparr>frames := fs, chunk_count := c\<rparr>)"

definition capture_error_msg :: "string \<Rightarrow> string" where
  "capture_error_msg e = ''Erro na captura de '' @ a_acute @ ''udio: '' @ e"

text \<open>
  The loop runs over the outcomes of the successive \<^verbatim>\<open>stream.read\<close> calls made
  while \<^verbatim>\<open>is_recording\<close> is observed true: \<open>Inr data\<close> for a frame, \<open>Inl e\<close> for a
  raised exception (logged, then \<^verbatim>\<open>break\<close>).  The end of the list is the moment the
  loop condition is observed false.
\<close>

fun record_loop :: "int \<Rightarrow> (string + frame) list \<Rightarrow> rec_state \<Rightarrow> rec_state" where
  "record_loop fpc [] s = s"
| "record_loop fpc (Inl e # rs) s = s\<lparr>rec_log := rec_log s @ [capture_error_msg e]\<rparr>"
| "record_loop fpc (Inr data # rs) s = record_loop fpc rs (record_body fpc data s)"

definition record_audio :: "(string + frame) list \<Rightarrow> chunk list \<Rightarrow> rec_state" where
  "record_audio reads q =
     record_loop frames_per_chunk reads
       \<lparr>frames = [], chunk_count = 0, audio_queue = q, rec_log = []\<rparr>"

text \<open>
  The invariant of the capture loop after the frames \<open>ds\<close> were read, for a threshold of
  \<open>n\<close> frames and a queue that held \<open>q\<close> at the start.
\<close>

definition rec_inv :: "nat \<Rightarrow> chunk list \<Rightarrow> frame list \<Rightarrow> rec_state \<Rightarrow> bool" where
  "rec_inv n q ds s \<longleftrightarrow>
     (\<exists>cs. audio_queue s = q @ cs \<and> length cs = length ds div n \<and>
        (\<forall>c \<in> set cs. length c = n) \<and> concat cs @ frames s = ds \<and>
        length (frames s) = length ds mod n \<and> chunk_count s = int (length (frames s)))"

section \<open>Collaborators and observable effects\<close>

text \<open>
  The inference engine, the temporary-file facility, the file system and the clock are
  external.  Each run of an operation takes a description of what they do during that run
  and returns, next to its result, the list of effects it caused, in order.
\<close>

record options =
  beam_size :: int
  language :: "string option"
  word_timestamps :: bool
  vad_filter :: bool

datatype event =
    FileCreated string
  | FileWritten string bytes
  | EngineCall string options
  | Removed string
  | RemoveFailed string string
  | Printed string
  | LogInfo string
  | LogError string

record word =
  w_start :: pyfloat
  w_end :: pyfloat
  w_word :: string
  w_probability :: pyfloat

text \<open>An engine segment; \<open>seg_words\<close> is \<^verbatim>\<open>None\<close> unless word timestamps were computed.\<close>

record segment =
  seg_start :: pyfloat
  seg_end :: pyfloat
  seg_text :: string
  seg_words :: "word list option"

record info =
  info_language :: string
  info_language_probability :: pyfloat

section \<open>Strings and paths\<close>

text \<open>\<^verbatim>\<open>str.lower\<close> and \<^verbatim>\<open>str.strip\<close>, on the ASCII range of the byte model.\<close>

definition lower_char :: "char \<Rightarrow> char" where
  "lower_char c =
     (let n = (of_char c :: nat) in if 65 \<le> n \<and> n \<le> 90 then char_of (n + 32) else c)"

definition lower :: "string \<Rightarrow> string" where
  "lower s = map lower_char s"

definition is_space :: "char \<Rightarrow> bool" where
  "is_space c = (let n = (of_char c :: nat) in (9 \<le> n \<and> n \<le> 13) \<or> (28 \<le> n \<and> n \<le> 32))"

definition strip :: "string \<Rightarrow> string" where
  "strip s = rev (dropWhile is_space (rev (dropWhile is_space s)))"

fun join :: "string \<Rightarrow> string list \<Rightarrow> string" where
  "join sep [] = []"
| "join sep [x] = x"
| "join sep (x # y # ys) = x @ sep @ join sep (y # ys)"

text \<open>\<^verbatim>\<open>str\<close> of a non-negative and of any integer: decimal digits.\<close>

definition digit_char :: "nat \<Rightarrow> char" where
  "digit_char d = ''0123456789'' ! d"

function str_nat :: "nat \<Rightarrow> string" where
  "str_nat n = (if n < 10 then [digit_char n] else str_nat (n div 10) @ [digit_char (n mod 10)])"
  by pat_completeness auto
termination
  by (relation "measure (\<lambda>n. n)") auto

declare str_nat.simps [simp del]

definition str_int :: "int \<Rightarrow> string" where
  "str_int i = (if i < 0 then ''-'' @ str_nat (nat (- i)) else str_nat (nat i))"

text \<open>\<^verbatim>\<open>p.rfind(c)\<close>: the last index of \<open>c\<close> in \<open>p\<close>, or -1.\<close>

fun rfind_from :: "char \<Rightarrow> string \<Rightarrow> int \<Rightarrow> int \<Rightarrow> int" where
  "rfind_from c [] i r = r"
| "rfind_from c (x # xs) i r = rfind_from c xs (i + 1) (if x = c then i else r)"

definition rfind :: "string \<Rightarrow> char \<Rightarrow> int" where
  "rfind p c = rfind_from c p 0 (- 1)"

text \<open>
  \<^verbatim>\<open>os.path.splitext\<close> of the POSIX path module (separator \<^verbatim>\<open>/\<close>, no alternative
  separator): the extension starts at the last dot of the last path component, unless
  that component has only dots before it.  \<open>splitext_scan\<close> is the library's loop that
  skips the leading dots.
\<close>

function splitext_scan :: "string \<Rightarrow> nat \<Rightarrow> nat \<Rightarrow> string \<times> string" where
  "splitext_scan p filenameIndex dotIndex =
     (if filenameIndex < dotIndex
      then (if [p ! filenameIndex] \<noteq> ''.''
            then (take dotIndex p, drop dotIndex p)
            else splitext_scan p (filenameIndex + 1) dotIndex)
      else (p, []))"
  by pat_completeness auto
termination
  by (relation "measure (\<lambda>(p, i, d). d - i)") auto

definition splitext :: "string \<Rightarrow> string \<times> string" where
  "splitext p =
     (let sepIndex = rfind p CHR ''/''; dotIndex = rfind p CHR ''.'' in
      if dotIndex > sepIndex
      then splitext_scan p (nat (sepIndex + 1)) (nat dotIndex)
      else (p, []))"

section \<open>The upload path: \<^verbatim>\<open>config.py\<close> and \<^verbatim>\<open>main.py\<close>\<close>

text \<open>
  \<^verbatim>\<open>Config.MAX_FILE_SIZE = int(os.getenv("MAX_FILE_SIZE", "100")) * 1024 * 1024\<close>, with
  \<open>mb\<close> the number read from the environment (100 when unset).
\<close>

definition MAX_FILE_SIZE :: "int \<Rightarrow> int" where
  "MAX_FILE_SIZE mb = mb * 1024 * 1024"

text \<open>The \<^verbatim>\<open>max_file_size_mb\<close> entry of \<^verbatim>\<open>health_check\<close>.\<close>

definition max_file_size_mb :: "int \<Rightarrow> int" where
  "max_file_size_mb mb = MAX_FILE_SIZE mb div (1024 * 1024)"

record upload_file =
  filename :: "string option"
  content :: bytes

datatype http_error = HTTPException (status_code: nat) (detail: string)

record word_dict =
  wd_start :: pyfloat
  wd_end :: pyfloat
  wd_word :: string
  wd_probability :: pyfloat

record segment_dict =
  sd_start :: pyfloat
  sd_end :: pyfloat
  sd_text :: string
  sd_words :: "word_dict list option"

record transcription_response =
  resp_text :: string
  resp_language :: string
  resp_language_probability :: pyfloat
  segments :: "segment_dict list"

text \<open>
  What the collaborators do during one request: \<open>tmp_stem\<close> is the name that
  \<^verbatim>\<open>NamedTemporaryFile\<close> picks, without the suffix (\<open>Inl\<close>: it raises); \<open>io_error\<close> a
  failure of \<^verbatim>\<open>file.read\<close> or \<^verbatim>\<open>temp_file.write\<close>; \<open>engine\<close> the result of
  \<^verbatim>\<open>model.transcribe\<close> on a path with the given options, including the iteration of the
  lazy segment sequence (\<open>Inl\<close>: it raises); \<open>unlink_error k\<close> whether the \<open>k\<close>-th call of
  \<^verbatim>\<open>os.unlink\<close> in the request raises.
\<close>

record ext =
  tmp_stem :: "string + string"
  io_error :: "string option"
  engine :: "string \<Rightarrow> options \<Rightarrow> string + (segment list \<times> info)"
  unlink_error :: "nat \<Rightarrow> string option"

definition allowed_extensions :: "string list" where
  "allowed_extensions = [''.mp3'', ''.wav'', ''.m4a'', ''.ogg'', ''.flac'', ''.aac'']"

definition no_file_detail :: string where
  "no_file_detail = ''Nenhum arquivo enviado''"

definition unsupported_detail :: string where
  "unsupported_detail =
     ''Formato de arquivo n'' @ a_tilde @ ''o suportado. Formatos aceitos: ''
       @ join '', '' allowed_extensions"

definition transcription_error_msg :: "string \<Rightarrow> string" where
  "transcription_error_msg e = ''Erro na transcri'' @ c_cedil @ a_tilde @ ''o: '' @ e"

definition not_iterable_msg :: string where
  "not_iterable_msg = [CHR 0x27] @ ''NoneType'' @ [CHR 0x27] @ '' object is not iterable''"

definition word_to_dict :: "word \<Rightarrow> word_dict" where
  "word_to_dict w =
     \<lparr>wd_start = w_start w, wd_end = w_end w, wd_word = w_word w,
      wd_probability = w_probability w\<rparr>"

text \<open>
  The loop over the segments, with its two accumulators.  Iterating over the words of a
  segment that has none raises a \<^verbatim>\<open>TypeError\<close>.
\<close>

fun convert_segments ::
  "bool \<Rightarrow> segment list \<Rightarrow> segment_dict list \<Rightarrow> string \<Rightarrow> string + (segment_dict list \<times> string)"
where
  "convert_segments wt [] segments_list full_text = Inr (segments_list, full_text)"
| "convert_segments wt (sg # sgs) segments_list full_text =
     (if wt
      then (case seg_words sg of
              None \<Rightarrow> Inl not_iterable_msg
            | Some ws \<Rightarrow>
                convert_segments wt sgs
                  (segments_list @ [\<lparr>sd_start = seg_start sg, sd_end = seg_end sg,
                      sd_text = seg_text sg, sd_words = Some (map word_to_dict ws)\<rparr>])
                  (full_text @ seg_text sg))
      else convert_segments wt sgs
             (segments_list @ [\<lparr>sd_start = seg_start sg, sd_end = seg_end sg,
                 sd_text = seg_text sg, sd_words = None\<rparr>])
             (full_text @ seg_text sg))"

text \<open>
  The \<^verbatim>\<open>except Exception\<close> handler of \<^verbatim>\<open>transcribe_audio\<close>: \<open>evs\<close> are the effects so
  far, \<open>path\<close> the temporary path if \<^verbatim>\<open>temp_file_path\<close> is bound, \<open>k\<close> the number of
  \<^verbatim>\<open>os.unlink\<close> calls made so far, \<open>e\<close> the text of the exception.  A failure of the
  handler's own \<^verbatim>\<open>os.unlink\<close> is caught by the bare \<^verbatim>\<open>except: pass\<close>.
\<close>

definition upload_handler ::
  "ext \<Rightarrow> event list \<Rightarrow> string option \<Rightarrow> nat \<Rightarrow> string
     \<Rightarrow> event list \<times> (http_error + transcription_response)"
where
  "upload_handler x evs path k e =
     (evs
        @ (case path of
             None \<Rightarrow> []
           | Some p \<Rightarrow>
               (case unlink_error x k of
                  None \<Rightarrow> [Removed p]
                | Some e' \<Rightarrow> [RemoveFailed p e']))
        @ [LogError (transcription_error_msg e)],
      Inl (HTTPException 500 (transcription_error_msg e)))"

text \<open>The \<^verbatim>\<open>try\<close> block of \<^verbatim>\<open>transcribe_audio\<close>, entered after validation.\<close>

definition transcribe_staged ::
  "ext \<Rightarrow> string \<Rightarrow> bytes \<Rightarrow> string \<Rightarrow> options
     \<Rightarrow> event list \<times> (http_error + transcription_response)"
where
  "transcribe_staged x fname payload file_extension opts =
     (case tmp_stem x of
        Inl e \<Rightarrow> upload_handler x [] None 0 e
      | Inr stem \<Rightarrow>
          (let temp_file_path = stem @ file_extension in
           case io_error x of
             Some e \<Rightarrow> upload_handler x [FileCreated temp_file_path] None 0 e
           | None \<Rightarrow>
               (let evs = [FileCreated temp_file_path, FileWritten temp_file_path payload,
                           LogInfo (''Transcrevendo arquivo: '' @ fname),
                           EngineCall temp_file_path opts] in
                case engine x temp_file_path opts of
                  Inl e \<Rightarrow> upload_handler x evs (Some temp_file_path) 0 e
                | Inr (segs, nfo) \<Rightarrow>
                    (case convert_segments (word_timestamps opts) segs [] [] of
                       Inl e \<Rightarrow> upload_handler x evs (Some temp_file_path) 0 e
                     | Inr (segments_list, full_text) \<Rightarrow>
                         (case unlink_error x 0 of
                            Some e \<Rightarrow>
                              upload_handler x (evs @ [RemoveFailed temp_file_path e])
                                (Some temp_file_path) 1 e
                          | None \<Rightarrow>
                              (evs @ [Removed temp_file_path,
                                      LogInfo (''Transcri'' @ c_cedil @ a_tilde @ ''o conclu''
                                        @ i_acute @ ''da. Idioma detectado: ''
                                        @ info_language nfo)],
                               Inr \<lparr>resp_text = strip full_text,
                                    resp_language = info_language nfo,
                                    resp_language_probability = info_language_probability nfo,
                                    segments = segments_list\<rparr>))))))"

text \<open>
  \<^verbatim>\<open>transcribe_audio\<close>: the two validations, then the \<^verbatim>\<open>try\<close> block.
  \<^verbatim>\<open>not file.filename\<close> holds for a missing and for an empty name.
\<close>

definition transcribe_audio ::
  "ext \<Rightarrow> upload_file \<Rightarrow> options \<Rightarrow> event list \<times> (http_error + transcription_response)"
where
  "transcribe_audio x file opts =
     (case filename file of
        None \<Rightarrow> ([], Inl (HTTPException 400 no_file_detail))
      | Some fname \<Rightarrow>
          if fname = [] then ([], Inl (HTTPException 400 no_file_detail))
          else (let file_extension = lower (snd (splitext fname)) in
                if file_extension \<notin> set allowed_extensions
                then ([], Inl (HTTPException 400 unsupported_detail))
                else transcribe_staged x fname (content file) file_extension opts))"

text \<open>The defaults of the parameters of \<^verbatim>\<open>transcribe_audio\<close>.\<close>

definition default_options :: options where
  "default_options = \<lparr>beam_size = 5, language = None, word_timestamps = False, vad_filter = True\<rparr>"

record batch_entry =
  be_filename :: "string option"
  success :: bool
  transcription :: "transcription_response option"
  error :: "string option"

text \<open>
  \<^verbatim>\<open>transcribe_batch\<close>: each file is paired with what the collaborators do while it is
  processed.  The call \<^verbatim>\<open>transcribe_audio(file)\<close> passes the file only.  \<open>str_exc\<close> is
  the framework's \<^verbatim>\<open>str\<close> of an \<^verbatim>\<open>HTTPException\<close>.
\<close>

fun transcribe_batch ::
  "(http_error \<Rightarrow> string) \<Rightarrow> (ext \<times> upload_file) list \<Rightarrow> event list \<times> batch_entry list"
where
  "transcribe_batch str_exc [] = ([], [])"
| "transcribe_batch str_exc ((x, file) # rest) =
     (let (evs, r) = transcribe_audio x file default_options;
          entry = (case r of
                     Inr result \<Rightarrow>
                       \<lparr>be_filename = filename file, success = True,
                        transcription = Some result, error = None\<rparr>
                   | Inl e \<Rightarrow>
                       \<lparr>be_filename = filename file, success = False,
                        transcription = None, error = Some (str_exc e)\<rparr>);
          (evs', results) = transcribe_batch str_exc rest
      in (evs @ evs', entry # results))"

section \<open>The transcription worker \<^verbatim>\<open>_transcribe_audio\<close>\<close>

text \<open>The transcription defaults of \<^verbatim>\<open>config.py\<close> (the language when the environment
  does not set one).\<close>

definition DEFAULT_BEAM_SIZE :: int where "DEFAULT_BEAM_SIZE = 1"
definition DEFAULT_VAD_FILTER :: bool where "DEFAULT_VAD_FILTER = True"
definition DEFAULT_WORD_TIMESTAMPS :: bool where "DEFAULT_WORD_TIMESTAMPS = False"
definition DEFAULT_LANGUAGE :: string where "DEFAULT_LANGUAGE = ''pt''"

definition worker_options :: options where
  "worker_options =
     \<lparr>beam_size = DEFAULT_BEAM_SIZE, language = Some DEFAULT_LANGUAGE,
      word_timestamps = DEFAULT_WORD_TIMESTAMPS, vad_filter = DEFAULT_VAD_FILTER\<rparr>"

text \<open>\<^verbatim>\<open>temp_filename = f"temp_chunk_{int(time.time())}.wav"\<close>, for the clock reading \<open>t\<close>.\<close>

definition temp_chunk_name :: "pyfloat \<Rightarrow> string" where
  "temp_chunk_name t = ''temp_chunk_'' @ str_int (py_int t) @ ''.wav''"

text \<open>
  What the surroundings do around one iteration of the worker loop: \<open>put_before\<close> are the
  chunks that the capture thread puts on the queue before the loop condition is
  evaluated, \<open>stop_before\<close> tells whether \<^verbatim>\<open>stop_recording\<close> has cleared the flag by then,
  \<open>put_during\<close> are the chunks that arrive during the one-second wait of
  \<^verbatim>\<open>audio_queue.get\<close>; \<open>now\<close> is \<^verbatim>\<open>time.time()\<close>, \<open>wave_error\<close> a failure while the
  wave file is written, \<open>w_engine\<close> the engine (with the iteration of its segments),
  \<open>strftime\<close> the formatted wall-clock time, \<open>remove_error k\<close> whether the \<open>k\<close>-th
  \<^verbatim>\<open>os.remove\<close> of the iteration raises, \<open>still_exists\<close> the answer of
  \<^verbatim>\<open>os.path.exists\<close> in the handler.
\<close>

record witer =
  put_before :: "chunk list"
  stop_before :: bool
  put_during :: "chunk list"
  now :: pyfloat
  wave_error :: "string option"
  w_engine :: "string \<Rightarrow> options \<Rightarrow> string + segment list"
  strftime :: string
  remove_error :: "nat \<Rightarrow> string option"
  still_exists :: bool

record wstate =
  is_transcribing :: bool
  w_queue :: "chunk list"
  w_events :: "event list"

text \<open>
  The loop is still running, has left through its condition, or was left by an exception
  that nothing catches, which ends the worker thread.
\<close>

datatype wstatus = Running | Exited | Died string

text \<open>
  The handler \<^verbatim>\<open>except Exception as e\<close> of the worker: log, then remove the file if it
  exists.  That \<^verbatim>\<open>os.remove\<close> is not guarded: if it raises, the exception leaves the loop.
  \<open>k\<close> counts the \<^verbatim>\<open>os.remove\<close> calls made so far in the iteration.
\<close>

definition worker_handler :: "witer \<Rightarrow> string \<Rightarrow> nat \<Rightarrow> string \<Rightarrow> wstate \<Rightarrow> wstatus \<times> wstate" where
  "worker_handler it temp_filename k e s =
     (let s1 = s\<lparr>w_events := w_events s @ [LogError (transcription_error_msg e)]\<rparr> in
      if still_exists it
      then (case remove_error it k of
              None \<Rightarrow> (Running, s1\<lparr>w_events := w_events s1 @ [Removed temp_filename]\<rparr>)
            | Some e' \<Rightarrow>
                (Died e', s1\<lparr>w_events := w_events s1 @ [RemoveFailed temp_filename e']\<rparr>))
      else (Running, s1))"

text \<open>
  The body of the \<^verbatim>\<open>try\<close> block after a chunk was taken from the queue.  The file
  written holds the joined frames (behind the header that the wave library adds).
\<close>

definition process_chunk :: "witer \<Rightarrow> chunk \<Rightarrow> wstate \<Rightarrow> wstatus \<times> wstate" where
  "process_chunk it frms s =
     (let temp_filename = temp_chunk_name (now it) in
      case wave_error it of
        Some e \<Rightarrow> worker_handler it temp_filename 0 e s
      | None \<Rightarrow>
          (let s1 = s\<lparr>w_events := w_events s @
                      [FileCreated temp_filename, FileWritten temp_filename (concat frms),
                       EngineCall temp_filename worker_options]\<rparr> in
           case w_engine it temp_filename worker_options of
             Inl e \<Rightarrow> worker_handler it temp_filename 0 e s1
           | Inr segs \<Rightarrow>
               (let txt = concat (map seg_text segs);
                    s2 = (if strip txt \<noteq> []
                          then s1\<lparr>w_events := w_events s1 @
                                 [Printed (''['' @ strftime it @ ''] '' @ strip txt)]\<rparr>
                          else s1) in
                case remove_error it 0 of
                  None \<Rightarrow> (Running, s2\<lparr>w_events := w_events s2 @ [Removed temp_filename]\<rparr>)
                | Some e \<Rightarrow>
                    worker_handler it temp_filename 1 e
                      (s2\<lparr>w_events := w_events s2 @ [RemoveFailed temp_filename e]\<rparr>))))"

text \<open>
  One iteration: the loop condition
  \<^verbatim>\<open>self.is_transcribing or not self.audio_queue.empty()\<close>, then \<^verbatim>\<open>get(timeout=1)\<close>,
  whose \<^verbatim>\<open>queue.Empty\<close> continues the loop.
\<close>

definition worker_iter :: "witer \<Rightarrow> wstate \<Rightarrow> wstatus \<times> wstate" where
  "worker_iter it s =
     (let s1 = s\<lparr>w_queue := w_queue s @ put_before it,
                 is_transcribing := is_transcribing s \<and> \<not> stop_before it\<rparr> in
      if \<not> (is_transcribing s1 \<or> w_queue s1 \<noteq> []) then (Exited, s1)
      else (case w_queue s1 @ put_during it of
              [] \<Rightarrow> (Running, s1)
            | frms # rest \<Rightarrow> process_chunk it frms (s1\<lparr>w_queue := rest\<rparr>)))"

text \<open>The loop over the iterations that the list describes; it may still be running
  when the list ends.\<close>

fun transcribe_loop :: "witer list \<Rightarrow> wstate \<Rightarrow> wstatus \<times> wstate" where
  "transcribe_loop [] s = (Running, s)"
| "transcribe_loop (it # its) s =
     (case worker_iter it s of
        (Running, s') \<Rightarrow> transcribe_loop its s'
      | (Exited, s') \<Rightarrow> (Exited, s')
      | (Died e, s') \<Rightarrow> (Died e, s'))"

text \<open>\<^verbatim>\<open>_transcribe_audio\<close>: set the flag, then loop; \<open>q\<close> is what the queue holds at the
  start.\<close>

definition transcribe_audio_worker :: "witer list \<Rightarrow> chunk list \<Rightarrow> wstatus \<times> wstate" where
  "transcribe_audio_worker its q =
     transcribe_loop its \<lparr>is_transcribing = True, w_queue = q, w_events = []\<rparr>"

section \<open>Stopping: \<^verbatim>\<open>stop_recording\<close> against the capture thread\<close>

text \<open>
  \<^verbatim>\<open>start_recording\<close> runs \<^verbatim>\<open>_record_audio\<close> on a thread of its own, and
  \<^verbatim>\<open>stop_recording\<close> runs on the caller's thread.  The two are modelled statement by
  statement, each with a program counter, over the state they share; a schedule says which
  thread takes the next step.  The capture thread is at its loop condition, at
  \<^verbatim>\<open>self.stream.read\<close>, or holds the frame it has read and is about to run the rest of
  the loop body, or has finished.
\<close>

datatype capture_pc = AtCheck | AtRead | AtBody frame | Finished

text \<open>\<^verbatim>\<open>stop_recording\<close> is about to clear \<^verbatim>\<open>is_recording\<close>, to clear
  \<^verbatim>\<open>is_transcribing\<close>, to stop and close the stream if the object has one, to terminate
  the audio interface, or it has returned, or an exception has left it.\<close>

datatype stop_pc = ClearRecording | ClearTranscribing | CloseStream | Terminate
  | Returned | Raised string

datatype stream_state = StreamOpen | StreamClosed

text \<open>
  The shared state: the two flags, the \<^verbatim>\<open>stream\<close> attribute (\<open>None\<close> while the object has
  none, as before \<^verbatim>\<open>start_recording\<close>), the audio interface, the data of the capture loop,
  the capture thread (\<open>None\<close> if it was never started), the caller inside
  \<^verbatim>\<open>stop_recording\<close>, and the log.
\<close>

record sys =
  is_recording :: bool
  transcribing_flag :: bool
  stream :: "stream_state option"
  audio_terminated :: bool
  capture :: rec_state
  capture_thread :: "capture_pc option"
  stopper :: stop_pc
  sys_log :: "string list"

text \<open>
  One step of the capture thread; \<open>r\<close> is the outcome of \<^verbatim>\<open>stream.read\<close> when the step
  is that call (otherwise it is not used).
\<close>

definition capture_step :: "string + frame \<Rightarrow> sys \<Rightarrow> sys" where
  "capture_step r s =
     (case capture_thread s of
        None \<Rightarrow> s
      | Some Finished \<Rightarrow> s
      | Some AtCheck \<Rightarrow>
          s\<lparr>capture_thread := Some (if is_recording s then AtRead else Finished)\<rparr>
      | Some AtRead \<Rightarrow>
          (case r of
             Inr data \<Rightarrow> s\<lparr>capture_thread := Some (AtBody data)\<rparr>
           | Inl e \<Rightarrow>
               s\<lparr>capture := (capture s)\<lparr>rec_log := rec_log (capture s) @ [capture_error_msg e]\<rparr>,
                 capture_thread := Some Finished\<rparr>)
      | Some (AtBody data) \<Rightarrow>
          s\<lparr>capture := record_body frames_per_chunk data (capture s),
            capture_thread := Some AtCheck\<rparr>)"

text \<open>
  One step of \<^verbatim>\<open>stop_recording\<close>; \<open>x\<close> tells whether the external call of the step
  (\<^verbatim>\<open>stop_stream\<close> and \<^verbatim>\<open>close\<close>, or \<^verbatim>\<open>terminate\<close>) raises.  The stream is touched
  only under \<^verbatim>\<open>hasattr(self, 'stream')\<close>.  There is no step that waits for the capture
  thread.
\<close>

definition stop_step :: "string option \<Rightarrow> sys \<Rightarrow> sys" where
  "stop_step x s =
     (case stopper s of
        ClearRecording \<Rightarrow> s\<lparr>is_recording := False, stopper := ClearTranscribing\<rparr>
      | ClearTranscribing \<Rightarrow> s\<lparr>transcribing_flag := False, stopper := CloseStream\<rparr>
      | CloseStream \<Rightarrow>
          (case stream s of
             None \<Rightarrow> s\<lparr>stopper := Terminate\<rparr>
           | Some st \<Rightarrow>
               (case x of
                  None \<Rightarrow> s\<lparr>stream := Some StreamClosed, stopper := Terminate\<rparr>
                | Some e \<Rightarrow> s\<lparr>stopper := Raised e\<rparr>))
      | Terminate \<Rightarrow>
          (case x of
             None \<Rightarrow>
               s\<lparr>audio_terminated := True,
                 sys_log := sys_log s @ [''Grava'' @ c_cedil @ a_tilde @ ''o interrompida.''],
                 stopper := Returned\<rparr>
           | Some e \<Rightarrow> s\<lparr>stopper := Raised e\<rparr>)
      | Returned \<Rightarrow> s
      | Raised e \<Rightarrow> s)"

datatype action = Capture "string + frame" | Stop "string option"

fun step :: "action \<Rightarrow> sys \<Rightarrow> sys" where
  "step (Capture r) s = capture_step r s"
| "step (Stop x) s = stop_step x s"

fun run :: "action list \<Rightarrow> sys \<Rightarrow> sys" where
  "run [] s = s"
| "run (a # as) s = run as (step a s)"

text \<open>The number of frames that the capture loop has produced: those in its accumulator
  and those in the chunks it has put on the queue.\<close>

definition produced :: "sys \<Rightarrow> nat" where
  "produced s = length (frames (capture s)) + length (concat (audio_queue (capture s)))"

text \<open>
  The object after \<^verbatim>\<open>__init__\<close>, with \<^verbatim>\<open>stop_recording\<close> about to run, and the object
  after \<^verbatim>\<open>start_recording\<close>, its capture thread at the loop condition.
\<close>

definition never_started :: sys where
  "never_started =
     \<lparr>is_recording = False, transcribing_flag = False, stream = None,
      audio_terminated = False,
      capture = \<lparr>frames = [], chunk_count = 0, audio_queue = [], rec_log = []\<rparr>,
      capture_thread = None, stopper = ClearRecording, sys_log = []\<rparr>"

definition capturing :: sys where
  "capturing =
     never_started\<lparr>is_recording := True, transcribing_flag := True,
       stream := Some StreamOpen, capture_thread := Some AtCheck\<rparr>"

text \<open>
  For the proofs: the number of frames that the capture thread may still append without
  looking at the flag again, and the fact that the flag is clear once \<^verbatim>\<open>stop_recording\<close>
  is past its first statement.
\<close>

definition pending :: "sys \<Rightarrow> nat" where
  "pending s = (case capture_thread s of
                  Some AtRead \<Rightarrow> 1 | Some (AtBody d) \<Rightarrow> 1 | _ \<Rightarrow> 0)"

definition stop_inv :: "sys \<Rightarrow> bool" where
  "stop_inv s \<longleftrightarrow> (stopper s \<noteq> ClearRecording \<longrightarrow> \<not> is_recording s)"

section \<open>Example inputs\<close>

text \<open>
  Concrete collaborators and uploads, used to run the operations: an engine that
  recognises one segment, one that raises, a file system whose \<^verbatim>\<open>os.unlink\<close> raises,
  the rendering \<^verbatim>\<open>"{status_code}: {detail}"\<close> that current versions of the framework
  give an \<^verbatim>\<open>HTTPException\<close>, and a payload one byte longer than the default maximum.
\<close>

definition ok_info :: info where
  "ok_info = \<lparr>info_language = ''pt'', info_language_probability = 99 / 100\<rparr>"

definition ok_segments :: "segment list" where
  "ok_segments = [\<lparr>seg_start = 0, seg_end = 3 / 2, seg_text = '' bom dia'', seg_words = None\<rparr>]"

definition ok_ext :: ext where
  "ok_ext = \<lparr>tmp_stem = Inr ''/tmp/tmpk3x9q2ab'', io_error = None,
             engine = (\<lambda>p opts. Inr (ok_segments, ok_info)), unlink_error = (\<lambda>k. None)\<rparr>"

definition engine_fails_ext :: ext where
  "engine_fails_ext = ok_ext\<lparr>engine := (\<lambda>p opts. Inl ''Invalid data found when processing input'')\<rparr>"

definition unlink_fails_ext :: ext where
  "unlink_fails_ext = ok_ext\<lparr>unlink_error := (\<lambda>k. Some ''[Errno 13] Permission denied'')\<rparr>"

definition http_str :: "http_error \<Rightarrow> string" where
  "http_str h = str_nat (status_code h) @ '': '' @ detail h"


definition big_payload :: bytes where
  "big_payload = replicate (nat (MAX_FILE_SIZE 100) + 1) (CHR 0x00)"

definition file_a :: upload_file where "file_a = \<lparr>filename = Some ''a.wav'', content = ''RIFF''\<rparr>"
definition file_b :: upload_file where "file_b = \<lparr>filename = Some ''b.wav'', content = ''RIFF''\<rparr>"
definition file_c :: upload_file where "file_c = \<lparr>filename = Some ''c.wav'', content = ''RIFF''\<rparr>"

definition example_batch :: "(ext \<times> upload_file) list" where
  "example_batch = [(ok_ext, file_a), (engine_fails_ext, file_b), (ok_ext, file_c)]"

text \<open>
  Iterations of the worker: one in which everything works, at a given clock reading, after
  \<^verbatim>\<open>stop_recording\<close>; one in which \<^verbatim>\<open>os.remove\<close> raises each time; one in which the
  engine raises and \<^verbatim>\<open>os.remove\<close> raises too.
\<close>

definition ok_iter :: "pyfloat \<Rightarrow> witer" where
  "ok_iter t =
     \<lparr>put_before = [], stop_before = True, put_during = [], now = t, wave_error = None,
      w_engine = (\<lambda>p opts. Inr ok_segments), strftime = ''12:00:00'',
      remove_error = (\<lambda>k. None), still_exists = True\<rparr>"

definition remove_fails_iter :: witer where
  "remove_fails_iter =
     (ok_iter (6800000001 / 4))\<lparr>remove_error := (\<lambda>k. Some ''[Errno 13] Permission denied'')\<rparr>"

definition engine_and_remove_fail_iter :: witer where
  "engine_and_remove_fail_iter =
     remove_fails_iter\<lparr>w_engine := (\<lambda>p opts. Inl ''Invalid data found when processing input'')\<rparr>"

definition chunk_a :: chunk where "chunk_a = [''aa'', ''bb'']"
definition chunk_b :: chunk where "chunk_b = [''cc'', ''dd'']"

text \<open>
  A schedule in which the capture thread passes its loop condition and its read returns a
  frame, and only then \<^verbatim>\<open>stop_recording\<close> runs from its first statement to its return.
\<close>

definition stop_race :: "action list" where
  "stop_race = [Capture (Inr ''f0''), Capture (Inr ''f0''),
                Stop None, Stop None, Stop None, Stop None]"

section \<open>Properties of the capture loop\<close>

lemma frames_per_chunk_value: "frames_per_chunk = 46"
proof -
  have "\<lfloor>375 / 8 :: rat\<rfloor> = 46" by linarith
  then show ?thesis
    by (simp add: frames_per_chunk_def py_int_def RATE_def CHUNK_def RECORD_SECONDS_def)
qed

lemma frames_per_chunk_ceiling:
  "\<lceil>of_int RATE / of_int CHUNK * of_int RECORD_SECONDS :: rat\<rceil> = 47"
proof -
  have "\<lceil>375 / 8 :: rat\<rceil> = 47" by linarith
  then show ?thesis by (simp add: RATE_def CHUNK_def RECORD_SECONDS_def)
qed

lemma record_loop_append:
  "record_loop fpc (map Inr (xs @ ys)) s =
     record_loop fpc (map Inr ys) (record_loop fpc (map Inr xs) s)"
  by (induction xs arbitrary: s) simp_all

lemma record_loop_snoc:
  "record_loop fpc (map Inr (ds @ [d])) s = record_body fpc d (record_loop fpc (map Inr ds) s)"
  using record_loop_append [of fpc ds "[d]" s] by simp

lemma rec_inv_step:
  assumes n: "0 < n" and inv: "rec_inv n q ds s"
  shows "rec_inv n q (ds @ [d]) (record_body (int n) d s)"
proof -
  from inv obtain cs where cs: "audio_queue s = q @ cs" "length cs = length ds div n"
    "\<forall>c \<in> set cs. length c = n" "concat cs @ frames s = ds"
    "length (frames s) = length ds mod n" "chunk_count s = int (length (frames s))"
    unfolding rec_inv_def by blast
  show ?thesis
  proof (cases "Suc (length ds mod n) = n")
    case True
    show ?thesis
      unfolding rec_inv_def
      apply (rule exI [of _ "cs @ [frames s @ [d]]"])
      using cs True n by (auto simp: record_body_def Let_def div_Suc mod_Suc)
  next
    case False
    have lt: "length ds mod n < n" using n by simp
    show ?thesis
      unfolding rec_inv_def
      apply (rule exI [of _ cs])
      using cs False n lt by (auto simp: record_body_def Let_def div_Suc mod_Suc)
  qed
qed

lemma rec_inv_loop:
  assumes n: "0 < n"
  shows "rec_inv n q ds (record_loop (int n) (map Inr ds)
           \<lparr>frames = [], chunk_count = 0, audio_queue = q, rec_log = l\<rparr>)"
proof (induction ds rule: rev_induct)
  case Nil
  show ?case by (simp add: rec_inv_def)
next
  case (snoc d ds)
  show ?case unfolding record_loop_snoc by (rule rec_inv_step [OF n snoc])
qed

lemma record_audio_inv: "rec_inv 46 q ds (record_audio (map Inr ds) q)"
  using rec_inv_loop [of 46 q ds "[]"] by (simp add: record_audio_def frames_per_chunk_value)

text \<open>
  C1 (as amended).  In the live pipeline (rate 16000, frame size 1024, 3 seconds) the
  threshold is \<open>int(16000 / 1024 * 3)\<close>, the quotient rounded down, which is 46 frames.
  After any \<open>N\<close> frames read without a device error the loop has put \<open>N div 46\<close> chunks
  on the queue, in order and behind what the queue held, each of exactly 46 frames, and
  keeps the remaining \<open>N mod 46\<close> frames in its accumulator; so a chunk is emitted exactly
  when the accumulated count reaches 46, and \<open>N = k * 46\<close> frames give exactly \<open>k\<close> chunks.
\<close>

theorem record_audio_chunks:
  "frames_per_chunk = \<lfloor>of_int RATE / of_int CHUNK * of_int RECORD_SECONDS :: rat\<rfloor> \<and>
   frames_per_chunk = 46 \<and>
   (\<exists>cs. audio_queue (record_audio (map Inr ds) q) = q @ cs \<and>
      length cs = length ds div 46 \<and>
      (\<forall>c \<in> set cs. length c = 46) \<and>
      concat cs @ frames (record_audio (map Inr ds) q) = ds \<and>
      length (frames (record_audio (map Inr ds) q)) = length ds mod 46)"
proof -
  have "\<lfloor>375 / 8 :: rat\<rfloor> = 46" by linarith
  then have "frames_per_chunk = \<lfloor>of_int RATE / of_int CHUNK * of_int RECORD_SECONDS :: rat\<rfloor>"
    by (simp add: frames_per_chunk_value RATE_def CHUNK_def RECORD_SECONDS_def)
  moreover have "\<exists>cs. audio_queue (record_audio (map Inr ds) q) = q @ cs \<and>
      length cs = length ds div 46 \<and>
      (\<forall>c \<in> set cs. length c = 46) \<and>
      concat cs @ frames (record_audio (map Inr ds) q) = ds \<and>
      length (frames (record_audio (map Inr ds) q)) = length ds mod 46"
    using record_audio_inv [of q ds] unfolding rec_inv_def by blast
  ultimately show ?thesis using frames_per_chunk_value by blast
qed

theorem record_audio_chunks_witness:
  "length (audio_queue (record_audio (map Inr (replicate 92 ''ab'')) [])) = 2 \<and>
   frames (record_audio (map Inr (replicate 92 ''ab'')) []) = []"
  using record_audio_chunks [of "replicate 92 ''ab''" "[]"] by auto

text \<open>
  C1 as stated fails: the claimed threshold, the quotient rounded up, is 47, yet 46 frames
  already give a chunk, 47 frames give one chunk of 46 frames, and 2162 = 46 * 47 frames
  give 47 chunks, not 46.
\<close>

theorem record_audio_ceiling_counterexample:
  "\<lceil>of_int RATE / of_int CHUNK * of_int RECORD_SECONDS :: rat\<rceil> = 47 \<and>
   length (audio_queue (record_audio (map Inr (replicate 46 ''ab'')) [])) = 1 \<and>
   map length (audio_queue (record_audio (map Inr (replicate 47 ''ab'')) [])) = [46] \<and>
   length (audio_queue (record_audio (map Inr (replicate 2162 ''ab'')) [])) = 47"
proof -
  have a: "length (audio_queue (record_audio (map Inr (replicate 46 ''ab'')) [])) = 1"
    using record_audio_inv [of "[]" "replicate 46 ''ab''"] unfolding rec_inv_def by auto
  have "\<exists>cs. audio_queue (record_audio (map Inr (replicate 47 ''ab'')) []) = cs \<and>
          length cs = 1 \<and> (\<forall>c \<in> set cs. length c = 46)"
    using record_audio_inv [of "[]" "replicate 47 ''ab''"] unfolding rec_inv_def by auto
  then have b: "map length (audio_queue (record_audio (map Inr (replicate 47 ''ab'')) [])) = [46]"
    by (auto simp: length_Suc_conv)
  have c: "length (audio_queue (record_audio (map Inr (replicate 2162 ''ab'')) [])) = 47"
    using record_audio_inv [of "[]" "replicate 2162 ''ab''"] unfolding rec_inv_def by auto
  show ?thesis using frames_per_chunk_ceiling a b c by blast
qed

section \<open>Properties of the upload path\<close>

lemma rfind_from_absent: "c \<notin> set p \<Longrightarrow> rfind_from c p i r = r"
  by (induction p arbitrary: i r) auto

lemma rfind_from_lower: "- 1 \<le> r \<Longrightarrow> 0 \<le> i \<Longrightarrow> - 1 \<le> rfind_from c p i r"
  by (induction p arbitrary: i r) auto

lemma rfind_lower: "- 1 \<le> rfind p c"
  by (simp add: rfind_def rfind_from_lower)

lemma rfind_absent: "c \<notin> set p \<Longrightarrow> rfind p c = - 1"
  by (simp add: rfind_def rfind_from_absent)

lemma rfind_leading: "p \<noteq> [] \<Longrightarrow> hd p = c \<Longrightarrow> c \<notin> set (tl p) \<Longrightarrow> rfind p c = 0"
  by (cases p) (simp_all add: rfind_def rfind_from_absent)

lemma splitext_no_extension:
  assumes "fname \<noteq> []"
    and "CHR ''.'' \<notin> set fname \<or> (hd fname = CHR ''.'' \<and> CHR ''.'' \<notin> set (tl fname))"
  shows "splitext fname = (fname, [])"
proof -
  from assms(2) consider (nodot) "CHR ''.'' \<notin> set fname"
    | (lead) "hd fname = CHR ''.''" "CHR ''.'' \<notin> set (tl fname)" by blast
  then show ?thesis
  proof cases
    case nodot
    then show ?thesis using rfind_lower [of fname "CHR ''/''"]
      by (simp add: splitext_def rfind_absent Let_def)
  next
    case lead
    then have d: "rfind fname CHR ''.'' = 0" using assms(1) by (simp add: rfind_leading)
    show ?thesis
    proof (cases "rfind fname CHR ''/'' = - 1")
      case True
      then show ?thesis using d by (simp add: splitext_def Let_def)
    next
      case False
      then have "0 \<le> rfind fname CHR ''/''" using rfind_lower [of fname "CHR ''/''"] by linarith
      then show ?thesis using d by (simp add: splitext_def Let_def)
    qed
  qed
qed

lemma empty_not_allowed: "[] \<notin> set allowed_extensions"
  by (simp add: allowed_extensions_def)

lemma unsupported_detail_value:
  "unsupported_detail = ''Formato de arquivo n'' @ a_tilde
      @ ''o suportado. Formatos aceitos: .mp3, .wav, .m4a, .ogg, .flac, .aac''"
  by (simp add: unsupported_detail_def allowed_extensions_def)

lemma upload_handler_status:
  "snd (upload_handler x evs path k e) = Inl (HTTPException 500 (transcription_error_msg e))"
  by (simp add: upload_handler_def)

lemma transcribe_staged_status:
  "case snd (transcribe_staged x fname payload fe opts) of
     Inl h \<Rightarrow> status_code h = 500 | Inr r \<Rightarrow> True"
  by (auto simp: transcribe_staged_def upload_handler_def Let_def
      split: sum.splits option.splits prod.splits)

text \<open>
  C6.  The upload operation validates in order.  A missing or empty filename is rejected
  with status 400 and the "no file" detail, with no effect at all (no temporary file, no
  inference call).  Otherwise a filename whose extension, lower-cased, is not one of the
  six allowed ones is rejected with status 400 and the "unsupported format" detail that
  lists the allowed formats, again with no effect.  A filename whose lower-cased extension
  is allowed passes both checks: the result is that of the staged transcription, which is
  a response or an error of status 500.
\<close>

theorem transcribe_audio_validation:
  "((filename file = None \<or> filename file = Some []) \<longrightarrow>
      transcribe_audio x file opts = ([], Inl (HTTPException 400 ''Nenhum arquivo enviado''))) \<and>
   (\<forall>fname. filename file = Some fname \<and> fname \<noteq> [] \<and>
        lower (snd (splitext fname))
          \<notin> {''.mp3'', ''.wav'', ''.m4a'', ''.ogg'', ''.flac'', ''.aac''} \<longrightarrow>
      transcribe_audio x file opts =
        ([], Inl (HTTPException 400 (''Formato de arquivo n'' @ a_tilde
               @ ''o suportado. Formatos aceitos: .mp3, .wav, .m4a, .ogg, .flac, .aac'')))) \<and>
   (\<forall>fname. filename file = Some fname \<and> fname \<noteq> [] \<and>
        lower (snd (splitext fname))
          \<in> {''.mp3'', ''.wav'', ''.m4a'', ''.ogg'', ''.flac'', ''.aac''} \<longrightarrow>
      transcribe_audio x file opts =
        transcribe_staged x fname (content file) (lower (snd (splitext fname))) opts \<and>
      (case snd (transcribe_audio x file opts) of
         Inl h \<Rightarrow> status_code h = 500 | Inr r \<Rightarrow> True))"
proof -
  have a: "set allowed_extensions = {''.mp3'', ''.wav'', ''.m4a'', ''.ogg'', ''.flac'', ''.aac''}"
    by (simp add: allowed_extensions_def)
  have 1: "(filename file = None \<or> filename file = Some []) \<longrightarrow>
      transcribe_audio x file opts = ([], Inl (HTTPException 400 ''Nenhum arquivo enviado''))"
    by (auto simp: transcribe_audio_def no_file_detail_def)
  have 2: "\<forall>fname. filename file = Some fname \<and> fname \<noteq> [] \<and>
        lower (snd (splitext fname))
          \<notin> {''.mp3'', ''.wav'', ''.m4a'', ''.ogg'', ''.flac'', ''.aac''} \<longrightarrow>
      transcribe_audio x file opts =
        ([], Inl (HTTPException 400 (''Formato de arquivo n'' @ a_tilde
               @ ''o suportado. Formatos aceitos: .mp3, .wav, .m4a, .ogg, .flac, .aac'')))"
    unfolding a [symmetric] unsupported_detail_value [symmetric]
    by (simp add: transcribe_audio_def Let_def)
  have 3: "\<forall>fname. filename file = Some fname \<and> fname \<noteq> [] \<and>
        lower (snd (splitext fname))
          \<in> {''.mp3'', ''.wav'', ''.m4a'', ''.ogg'', ''.flac'', ''.aac''} \<longrightarrow>
      transcribe_audio x file opts =
        transcribe_staged x fname (content file) (lower (snd (splitext fname))) opts \<and>
      (case snd (transcribe_audio x file opts) of
         Inl h \<Rightarrow> status_code h = 500 | Inr r \<Rightarrow> True)"
    unfolding a [symmetric]
    using transcribe_staged_status by (simp add: transcribe_audio_def Let_def)
  from 1 2 3 show ?thesis by blast
qed

text \<open>
  C10.  A non-empty filename without a dot, or whose only dot is its first character, has
  the empty extension, and the upload operation rejects it with status 400 and the
  "unsupported format" detail (which differs from the "no file" detail), with no effect
  at all: no temporary file is created.
\<close>

theorem transcribe_audio_no_extension:
  assumes "filename file = Some fname" and "fname \<noteq> []"
    and "CHR ''.'' \<notin> set fname \<or> (hd fname = CHR ''.'' \<and> CHR ''.'' \<notin> set (tl fname))"
  shows "snd (splitext fname) = [] \<and>
         transcribe_audio x file opts = ([], Inl (HTTPException 400 unsupported_detail)) \<and>
         unsupported_detail \<noteq> no_file_detail"
proof -
  have s: "splitext fname = (fname, [])" by (rule splitext_no_extension [OF assms(2,3)])
  have "transcribe_audio x file opts = ([], Inl (HTTPException 400 unsupported_detail))"
    using assms(1,2) s empty_not_allowed by (simp add: transcribe_audio_def lower_def)
  moreover have "unsupported_detail \<noteq> no_file_detail"
    by (simp add: unsupported_detail_def no_file_detail_def)
  ultimately show ?thesis using s by simp
qed

lemma lower_txt: "lower ''.txt'' = ''.txt''" by code_simp
lemma lower_MP3: "lower ''.MP3'' = ''.mp3''" by code_simp
lemma lower_wav: "lower ''.wav'' = ''.wav''" by code_simp
lemma splitext_notes: "splitext ''notes.txt'' = (''notes'', ''.txt'')" by code_simp
lemma splitext_SONG: "splitext ''SONG.MP3'' = (''SONG'', ''.MP3'')" by code_simp
lemma splitext_big: "splitext ''big.wav'' = (''big'', ''.wav'')" by code_simp
lemma splitext_a: "splitext ''a.wav'' = (''a'', ''.wav'')" by code_simp
lemma splitext_b: "splitext ''b.wav'' = (''b'', ''.wav'')" by code_simp
lemma splitext_c: "splitext ''c.wav'' = (''c'', ''.wav'')" by code_simp
lemma strip_ok: "strip '' bom dia'' = ''bom dia''" by code_simp

lemma ok_response:
  "transcribe_staged ok_ext fname payload ''.wav'' default_options =
     ([FileCreated ''/tmp/tmpk3x9q2ab.wav'', FileWritten ''/tmp/tmpk3x9q2ab.wav'' payload,
       LogInfo (''Transcrevendo arquivo: '' @ fname),
       EngineCall ''/tmp/tmpk3x9q2ab.wav'' default_options,
       Removed ''/tmp/tmpk3x9q2ab.wav'',
       LogInfo (''Transcri'' @ c_cedil @ a_tilde @ ''o conclu'' @ i_acute
                  @ ''da. Idioma detectado: pt'')],
      Inr \<lparr>resp_text = ''bom dia'', resp_language = ''pt'',
           resp_language_probability = 99 / 100,
           segments = [\<lparr>sd_start = 0, sd_end = 3 / 2, sd_text = '' bom dia'', sd_words = None\<rparr>]\<rparr>)"
  by (simp add: transcribe_staged_def ok_ext_def ok_segments_def ok_info_def default_options_def
      strip_ok Let_def)



theorem transcribe_audio_validation_witness:
  "transcribe_audio ok_ext \<lparr>filename = Some [], content = ''RIFF''\<rparr> default_options
     = ([], Inl (HTTPException 400 ''Nenhum arquivo enviado'')) \<and>
   transcribe_audio ok_ext \<lparr>filename = Some ''notes.txt'', content = ''RIFF''\<rparr> default_options
     = ([], Inl (HTTPException 400 (''Formato de arquivo n'' @ a_tilde
               @ ''o suportado. Formatos aceitos: .mp3, .wav, .m4a, .ogg, .flac, .aac''))) \<and>
   transcribe_audio ok_ext \<lparr>filename = Some ''SONG.MP3'', content = ''RIFF''\<rparr> default_options
     = transcribe_staged ok_ext ''SONG.MP3'' ''RIFF'' ''.mp3'' default_options"
proof -
  have 1: "transcribe_audio ok_ext \<lparr>filename = Some [], content = ''RIFF''\<rparr> default_options
     = ([], Inl (HTTPException 400 ''Nenhum arquivo enviado''))"
    by (rule transcribe_audio_validation
          [of "\<lparr>filename = Some [], content = ''RIFF''\<rparr>" ok_ext default_options,
           THEN conjunct1, THEN mp]) simp
  have 2: "transcribe_audio ok_ext \<lparr>filename = Some ''notes.txt'', content = ''RIFF''\<rparr>
      default_options
     = ([], Inl (HTTPException 400 (''Formato de arquivo n'' @ a_tilde
               @ ''o suportado. Formatos aceitos: .mp3, .wav, .m4a, .ogg, .flac, .aac'')))"
    by (rule transcribe_audio_validation
          [of "\<lparr>filename = Some ''notes.txt'', content = ''RIFF''\<rparr>" ok_ext default_options,
           THEN conjunct2, THEN conjunct1, THEN spec, of "''notes.txt''", THEN mp])
       (simp add: splitext_notes lower_txt)
  have 3: "transcribe_audio ok_ext \<lparr>filename = Some ''SONG.MP3'', content = ''RIFF''\<rparr>
      default_options
     = transcribe_staged ok_ext ''SONG.MP3'' ''RIFF'' ''.mp3'' default_options"
    using transcribe_audio_validation
          [of "\<lparr>filename = Some ''SONG.MP3'', content = ''RIFF''\<rparr>" ok_ext default_options,
           THEN conjunct2, THEN conjunct2, THEN spec, of "''SONG.MP3''", THEN mp]
    by (simp add: splitext_SONG lower_MP3)
  from 1 2 3 show ?thesis by blast
qed


theorem transcribe_audio_no_extension_witness:
  "transcribe_audio ok_ext \<lparr>filename = Some ''audio'', content = ''RIFF''\<rparr> default_options
     = ([], Inl (HTTPException 400 unsupported_detail)) \<and>
   transcribe_audio ok_ext \<lparr>filename = Some ''.mp3'', content = ''RIFF''\<rparr> default_options
     = ([], Inl (HTTPException 400 unsupported_detail))"
proof -
  have a: "filename \<lparr>filename = Some ''audio'', content = ''RIFF''\<rparr> = Some ''audio''"
    and b: "filename \<lparr>filename = Some ''.mp3'', content = ''RIFF''\<rparr> = Some ''.mp3''"
    by simp_all
  have a1: "''audio'' \<noteq> []" and b1: "''.mp3'' \<noteq> []" by simp_all
  have a2: "CHR ''.'' \<notin> set ''audio'' \<or>
            (hd ''audio'' = CHR ''.'' \<and> CHR ''.'' \<notin> set (tl ''audio''))" by simp
  have b2: "CHR ''.'' \<notin> set ''.mp3'' \<or>
            (hd ''.mp3'' = CHR ''.'' \<and> CHR ''.'' \<notin> set (tl ''.mp3''))" by simp
  show ?thesis
    using transcribe_audio_no_extension [OF a a1 a2, of ok_ext default_options]
          transcribe_audio_no_extension [OF b b1 b2, of ok_ext default_options]
    by blast
qed

lemma big_payload_length: "int (length big_payload) = MAX_FILE_SIZE 100 + 1"
  unfolding big_payload_def length_replicate by (simp add: MAX_FILE_SIZE_def)

text \<open>
  C2 fails on the code: \<^verbatim>\<open>transcribe_audio\<close> never compares the payload with
  \<^verbatim>\<open>MAX_FILE_SIZE\<close>.  An upload of one byte more than the default maximum of 100 MB with
  an allowed extension is staged to a temporary file, submitted to the engine and
  answered with a transcription.
\<close>

theorem transcribe_audio_oversize_accepted:
  "int (length big_payload) > MAX_FILE_SIZE 100 \<and>
   transcribe_audio ok_ext \<lparr>filename = Some ''big.wav'', content = big_payload\<rparr>
      default_options =
     ([FileCreated ''/tmp/tmpk3x9q2ab.wav'',
       FileWritten ''/tmp/tmpk3x9q2ab.wav'' big_payload,
       LogInfo ''Transcrevendo arquivo: big.wav'',
       EngineCall ''/tmp/tmpk3x9q2ab.wav'' default_options,
       Removed ''/tmp/tmpk3x9q2ab.wav'',
       LogInfo (''Transcri'' @ c_cedil @ a_tilde @ ''o conclu'' @ i_acute
                  @ ''da. Idioma detectado: pt'')],
      Inr \<lparr>resp_text = ''bom dia'', resp_language = ''pt'',
           resp_language_probability = 99 / 100,
           segments = [\<lparr>sd_start = 0, sd_end = 3 / 2, sd_text = '' bom dia'', sd_words = None\<rparr>]\<rparr>)"
proof -
  have "transcribe_audio ok_ext \<lparr>filename = Some ''big.wav'', content = big_payload\<rparr>
      default_options =
     transcribe_staged ok_ext ''big.wav'' big_payload ''.wav'' default_options"
    by (simp add: transcribe_audio_def splitext_big lower_wav allowed_extensions_def Let_def)
  then show ?thesis using big_payload_length by (simp add: ok_response)
qed


lemma transcribe_batch_length: "length (snd (transcribe_batch str_exc xs)) = length xs"
  by (induction xs) (auto simp: Let_def split_beta)

lemma transcribe_batch_events:
  "fst (transcribe_batch str_exc xs) =
     concat (map (\<lambda>(x, f). fst (transcribe_audio x f default_options)) xs)"
  by (induction xs) (auto simp: Let_def split_beta)

lemma transcribe_batch_nth:
  "i < length xs \<Longrightarrow>
     be_filename (snd (transcribe_batch str_exc xs) ! i) = filename (snd (xs ! i)) \<and>
     (case snd (transcribe_audio (fst (xs ! i)) (snd (xs ! i)) default_options) of
        Inr result \<Rightarrow>
          success (snd (transcribe_batch str_exc xs) ! i) \<and>
          transcription (snd (transcribe_batch str_exc xs) ! i) = Some result \<and>
          error (snd (transcribe_batch str_exc xs) ! i) = None
      | Inl e \<Rightarrow>
          \<not> success (snd (transcribe_batch str_exc xs) ! i) \<and>
          transcription (snd (transcribe_batch str_exc xs) ! i) = None \<and>
          error (snd (transcribe_batch str_exc xs) ! i) = Some (str_exc e))"
proof (induction xs arbitrary: i)
  case Nil
  then show ?case by simp
next
  case (Cons a xs)
  obtain x f where a: "a = (x, f)" by (cases a)
  show ?case
  proof (cases i)
    case 0
    then show ?thesis by (simp add: a Let_def split_beta split: sum.splits)
  next
    case (Suc j)
    then have j: "j < length xs" using Cons.prems by simp
    have e1: "snd (transcribe_batch str_exc (a # xs)) ! i = snd (transcribe_batch str_exc xs) ! j"
      by (simp add: a Suc Let_def split_beta)
    have e2: "(a # xs) ! i = xs ! j" by (simp add: Suc)
    show ?thesis unfolding e1 e2 by (rule Cons.IH [OF j])
  qed
qed

text \<open>
  C8.  For a batch of \<open>N\<close> files the batch operation returns \<open>N\<close> entries in input order;
  its effects are those of the single-file operation on each file in turn; entry \<open>i\<close>
  carries the filename of file \<open>i\<close> and depends on the outcome of file \<open>i\<close> only: on
  success the flag is true and the transcription is recorded, on any failure (validation
  or inference) the flag is false and the error text is recorded.
\<close>

theorem transcribe_batch_results:
  "length (snd (transcribe_batch str_exc xs)) = length xs \<and>
   fst (transcribe_batch str_exc xs) =
     concat (map (\<lambda>(x, f). fst (transcribe_audio x f default_options)) xs) \<and>
   (\<forall>i < length xs.
     be_filename (snd (transcribe_batch str_exc xs) ! i) = filename (snd (xs ! i)) \<and>
     (case snd (transcribe_audio (fst (xs ! i)) (snd (xs ! i)) default_options) of
        Inr result \<Rightarrow>
          success (snd (transcribe_batch str_exc xs) ! i) \<and>
          transcription (snd (transcribe_batch str_exc xs) ! i) = Some result \<and>
          error (snd (transcribe_batch str_exc xs) ! i) = None
      | Inl e \<Rightarrow>
          \<not> success (snd (transcribe_batch str_exc xs) ! i) \<and>
          transcription (snd (transcribe_batch str_exc xs) ! i) = None \<and>
          error (snd (transcribe_batch str_exc xs) ! i) = Some (str_exc e)))"
  using transcribe_batch_length transcribe_batch_events transcribe_batch_nth by blast

lemma transcribe_audio_engine_options:
  "EngineCall p opts' \<in> set (fst (transcribe_audio x file opts)) \<Longrightarrow> opts' = opts"
  by (auto simp: transcribe_audio_def transcribe_staged_def upload_handler_def Let_def
      split: option.splits sum.splits prod.splits if_splits)

text \<open>
  C9.  Every call of the inference engine made by the batch operation, for whatever
  files, carries the default options: beam size 5, no language (automatic detection),
  word timestamps off, VAD filter on.  The batch operation has no option parameters.
\<close>

theorem transcribe_batch_default_options:
  "\<forall>e \<in> set (fst (transcribe_batch str_exc xs)). \<forall>p opts. e = EngineCall p opts \<longrightarrow>
     opts = \<lparr>beam_size = 5, language = None, word_timestamps = False, vad_filter = True\<rparr>"
proof -
  have "\<And>p opts. EngineCall p opts \<in> set (fst (transcribe_batch str_exc xs)) \<Longrightarrow>
          opts = default_options"
    unfolding transcribe_batch_events
    by (auto dest: transcribe_audio_engine_options)
  then show ?thesis unfolding default_options_def by blast
qed

lemma transcribe_audio_a:
  "transcribe_audio ok_ext file_a default_options =
     transcribe_staged ok_ext ''a.wav'' ''RIFF'' ''.wav'' default_options"
  by (simp add: transcribe_audio_def file_a_def splitext_a lower_wav allowed_extensions_def Let_def)

lemma transcribe_audio_c:
  "transcribe_audio ok_ext file_c default_options =
     transcribe_staged ok_ext ''c.wav'' ''RIFF'' ''.wav'' default_options"
  by (simp add: transcribe_audio_def file_c_def splitext_c lower_wav allowed_extensions_def Let_def)

lemma transcribe_audio_b:
  "transcribe_audio engine_fails_ext file_b default_options =
     ([FileCreated ''/tmp/tmpk3x9q2ab.wav'', FileWritten ''/tmp/tmpk3x9q2ab.wav'' ''RIFF'',
       LogInfo ''Transcrevendo arquivo: b.wav'',
       EngineCall ''/tmp/tmpk3x9q2ab.wav'' default_options,
       Removed ''/tmp/tmpk3x9q2ab.wav'',
       LogError (transcription_error_msg ''Invalid data found when processing input'')],
      Inl (HTTPException 500
             (transcription_error_msg ''Invalid data found when processing input'')))"
  by (simp add: transcribe_audio_def file_b_def splitext_b lower_wav allowed_extensions_def Let_def
      transcribe_staged_def engine_fails_ext_def ok_ext_def upload_handler_def)

lemma http_str_500: "http_str (HTTPException 500 d) = ''500: '' @ d"
proof -
  have "str_nat 500 = ''500''" by (simp add: str_nat.simps digit_char_def)
  then show ?thesis by (simp add: http_str_def)
qed

theorem transcribe_batch_results_witness:
  "length (snd (transcribe_batch http_str example_batch)) = 3 \<and>
   map be_filename (snd (transcribe_batch http_str example_batch))
     = [Some ''a.wav'', Some ''b.wav'', Some ''c.wav''] \<and>
   success (snd (transcribe_batch http_str example_batch) ! 0) \<and>
   \<not> success (snd (transcribe_batch http_str example_batch) ! 1) \<and>
   error (snd (transcribe_batch http_str example_batch) ! 1)
     = Some (''500: '' @ transcription_error_msg ''Invalid data found when processing input'') \<and>
   success (snd (transcribe_batch http_str example_batch) ! 2)"
proof -
  let ?r = "snd (transcribe_batch http_str example_batch)"
  have len: "length example_batch = 3" by (simp add: example_batch_def)
  note t = transcribe_batch_results [of http_str example_batch]
  from t len have l: "length ?r = 3" by simp
  from t have n: "\<And>i. i < length example_batch \<Longrightarrow>
     be_filename (?r ! i) = filename (snd (example_batch ! i)) \<and>
     (case snd (transcribe_audio (fst (example_batch ! i)) (snd (example_batch ! i)) default_options) of
        Inr result \<Rightarrow> success (?r ! i) \<and> transcription (?r ! i) = Some result \<and> error (?r ! i) = None
      | Inl e \<Rightarrow> \<not> success (?r ! i) \<and> transcription (?r ! i) = None \<and>
          error (?r ! i) = Some (http_str e))"
    by blast
  have e: "example_batch ! 0 = (ok_ext, file_a)" "example_batch ! Suc 0 = (engine_fails_ext, file_b)"
    "example_batch ! 2 = (ok_ext, file_c)"
    by (simp_all add: example_batch_def)
  have f: "filename file_a = Some ''a.wav''" "filename file_b = Some ''b.wav''"
    "filename file_c = Some ''c.wav''"
    by (simp_all add: file_a_def file_b_def file_c_def)
  have 0: "be_filename (?r ! 0) = Some ''a.wav'' \<and> success (?r ! 0)"
    using n [of 0] len by (simp add: e f transcribe_audio_a ok_response)
  have 1: "be_filename (?r ! 1) = Some ''b.wav'' \<and> \<not> success (?r ! 1) \<and>
     error (?r ! 1)
       = Some (''500: '' @ transcription_error_msg ''Invalid data found when processing input'')"
    using n [of 1] len by (simp add: e f transcribe_audio_b http_str_500)
  have 2: "be_filename (?r ! 2) = Some ''c.wav'' \<and> success (?r ! 2)"
    using n [of 2] len by (simp add: e f transcribe_audio_c ok_response)
  have "?r = [?r ! 0, ?r ! 1, ?r ! 2]"
    using l by (auto simp: list_eq_iff_nth_eq nth_Cons' less_Suc_eq numeral_3_eq_3 numeral_2_eq_2)
  then have "map be_filename ?r = [be_filename (?r ! 0), be_filename (?r ! 1), be_filename (?r ! 2)]"
    by (metis list.simps(8,9))
  with 0 1 2 l show ?thesis by simp
qed

theorem transcribe_batch_default_options_witness:
  "EngineCall ''/tmp/tmpk3x9q2ab.wav''
      \<lparr>beam_size = 5, language = None, word_timestamps = False, vad_filter = True\<rparr>
     \<in> set (fst (transcribe_batch http_str example_batch))"
proof -
  have m: "EngineCall ''/tmp/tmpk3x9q2ab.wav'' default_options
             \<in> set (fst (transcribe_batch http_str example_batch))"
    by (simp add: example_batch_def transcribe_audio_a ok_response Let_def split_beta)
  from transcribe_batch_default_options [of http_str example_batch, rule_format, OF m refl] m
  show ?thesis by simp
qed

section \<open>Properties of the transcription worker\<close>

lemma py_int_t1: "py_int (6800000001 / 4) = 1700000000"
proof -
  have "\<lfloor>6800000001 / 4 :: rat\<rfloor> = 1700000000" by (rule floor_unique) simp_all
  then show ?thesis by (simp add: py_int_def)
qed

lemma py_int_t2: "py_int (6800000003 / 4) = 1700000000"
proof -
  have "\<lfloor>6800000003 / 4 :: rat\<rfloor> = 1700000000" by (rule floor_unique) simp_all
  then show ?thesis by (simp add: py_int_def)
qed

lemma str_int_example: "str_int 1700000000 = ''1700000000''"
  by (simp add: str_int_def str_nat.simps digit_char_def)

lemma temp_chunk_name_t1: "temp_chunk_name (6800000001 / 4) = ''temp_chunk_1700000000.wav''"
  by (simp add: temp_chunk_name_def py_int_t1 str_int_example)

lemma temp_chunk_name_t2: "temp_chunk_name (6800000003 / 4) = ''temp_chunk_1700000000.wav''"
  by (simp add: temp_chunk_name_def py_int_t2 str_int_example)

lemma process_chunk_ok:
  "process_chunk (ok_iter t) frms s =
     (Running, s\<lparr>w_events := w_events s @
        [FileCreated (temp_chunk_name t), FileWritten (temp_chunk_name t) (concat frms),
         EngineCall (temp_chunk_name t) worker_options,
         Printed ''[12:00:00] bom dia'', Removed (temp_chunk_name t)]\<rparr>)"
  by (simp add: process_chunk_def ok_iter_def ok_segments_def strip_ok Let_def)

lemma worker_iter_ok_cons:
  "worker_iter (ok_iter t) \<lparr>is_transcribing = b, w_queue = c # q, w_events = evs\<rparr> =
     (Running, \<lparr>is_transcribing = False, w_queue = q, w_events = evs @
        [FileCreated (temp_chunk_name t), FileWritten (temp_chunk_name t) (concat c),
         EngineCall (temp_chunk_name t) worker_options,
         Printed ''[12:00:00] bom dia'', Removed (temp_chunk_name t)]\<rparr>)"
  unfolding worker_iter_def by (simp add: process_chunk_ok Let_def) (simp add: ok_iter_def)

text \<open>
  C7 fails on the code for chunks: the worker names its file after the whole seconds of
  the clock.  Two distinct clock readings within one second give the same path, and two
  chunks that the worker takes from the queue at those readings are both written to
  \<^verbatim>\<open>temp_chunk_1700000000.wav\<close>.
\<close>

theorem temp_chunk_name_collision:
  "(6800000001 / 4 :: rat) \<noteq> 6800000003 / 4 \<and>
   temp_chunk_name (6800000001 / 4) = ''temp_chunk_1700000000.wav'' \<and>
   temp_chunk_name (6800000003 / 4) = ''temp_chunk_1700000000.wav'' \<and>
   transcribe_audio_worker [ok_iter (6800000001 / 4), ok_iter (6800000003 / 4)]
       [chunk_a, chunk_b] =
     (Running,
      \<lparr>is_transcribing = False, w_queue = [],
       w_events =
         [FileCreated ''temp_chunk_1700000000.wav'',
          FileWritten ''temp_chunk_1700000000.wav'' ''aabb'',
          EngineCall ''temp_chunk_1700000000.wav'' worker_options,
          Printed ''[12:00:00] bom dia'',
          Removed ''temp_chunk_1700000000.wav'',
          FileCreated ''temp_chunk_1700000000.wav'',
          FileWritten ''temp_chunk_1700000000.wav'' ''ccdd'',
          EngineCall ''temp_chunk_1700000000.wav'' worker_options,
          Printed ''[12:00:00] bom dia'',
          Removed ''temp_chunk_1700000000.wav'']\<rparr>)"
  by (simp add: transcribe_audio_worker_def worker_iter_ok_cons temp_chunk_name_t1
      temp_chunk_name_t2 chunk_a_def chunk_b_def)

lemma process_chunk_remove_fails:
  "process_chunk remove_fails_iter frms s =
     (Died ''[Errno 13] Permission denied'',
      s\<lparr>w_events := w_events s @
        [FileCreated (temp_chunk_name (6800000001 / 4)),
         FileWritten (temp_chunk_name (6800000001 / 4)) (concat frms),
         EngineCall (temp_chunk_name (6800000001 / 4)) worker_options,
         Printed ''[12:00:00] bom dia'',
         RemoveFailed (temp_chunk_name (6800000001 / 4)) ''[Errno 13] Permission denied'',
         LogError (transcription_error_msg ''[Errno 13] Permission denied''),
         RemoveFailed (temp_chunk_name (6800000001 / 4)) ''[Errno 13] Permission denied'']\<rparr>)"
  by (simp add: process_chunk_def worker_handler_def remove_fails_iter_def ok_iter_def
      ok_segments_def strip_ok Let_def)

lemma process_chunk_engine_and_remove_fail:
  "process_chunk engine_and_remove_fail_iter frms s =
     (Died ''[Errno 13] Permission denied'',
      s\<lparr>w_events := w_events s @
        [FileCreated (temp_chunk_name (6800000001 / 4)),
         FileWritten (temp_chunk_name (6800000001 / 4)) (concat frms),
         EngineCall (temp_chunk_name (6800000001 / 4)) worker_options,
         LogError (transcription_error_msg ''Invalid data found when processing input''),
         RemoveFailed (temp_chunk_name (6800000001 / 4)) ''[Errno 13] Permission denied'']\<rparr>)"
  by (simp add: process_chunk_def worker_handler_def engine_and_remove_fail_iter_def
      remove_fails_iter_def ok_iter_def Let_def)

lemma iter_fields:
  "put_before remove_fails_iter = []" "stop_before remove_fails_iter = True"
  "put_during remove_fails_iter = []"
  "put_before engine_and_remove_fail_iter = []" "stop_before engine_and_remove_fail_iter = True"
  "put_during engine_and_remove_fail_iter = []"
  by (simp_all add: engine_and_remove_fail_iter_def remove_fails_iter_def ok_iter_def)

text \<open>
  C4 fails on the code.  With two chunks queued and the flag cleared, the worker takes the
  first chunk; its \<^verbatim>\<open>os.remove\<close> raises, the handler logs and calls \<^verbatim>\<open>os.remove\<close>
  again, unguarded; that exception leaves the loop and ends the thread.  The loop is left
  with the second chunk still in the queue, and no later iteration takes it.
\<close>

theorem transcribe_loop_dies_with_queued_chunk:
  "transcribe_audio_worker [remove_fails_iter, ok_iter (6800000009 / 4)] [chunk_a, chunk_b] =
     (Died ''[Errno 13] Permission denied'',
      \<lparr>is_transcribing = False, w_queue = [chunk_b],
       w_events =
         [FileCreated ''temp_chunk_1700000000.wav'',
          FileWritten ''temp_chunk_1700000000.wav'' ''aabb'',
          EngineCall ''temp_chunk_1700000000.wav'' worker_options,
          Printed ''[12:00:00] bom dia'',
          RemoveFailed ''temp_chunk_1700000000.wav'' ''[Errno 13] Permission denied'',
          LogError (transcription_error_msg ''[Errno 13] Permission denied''),
          RemoveFailed ''temp_chunk_1700000000.wav'' ''[Errno 13] Permission denied'']\<rparr>)"
  by (simp add: transcribe_audio_worker_def worker_iter_def iter_fields
      process_chunk_remove_fails temp_chunk_name_t1 chunk_a_def Let_def)

lemma transcribe_audio_a_unlink_fails:
  "transcribe_audio unlink_fails_ext file_a default_options =
     transcribe_staged unlink_fails_ext ''a.wav'' ''RIFF'' ''.wav'' default_options"
  by (simp add: transcribe_audio_def file_a_def splitext_a lower_wav allowed_extensions_def Let_def)

text \<open>
  C5 fails on the code.  Upload path: with an engine that succeeds, the upload is answered
  with the transcription when \<^verbatim>\<open>os.unlink\<close> works, and with status 500 carrying the text
  of the deletion failure when \<^verbatim>\<open>os.unlink\<close> raises.  Worker: when the engine raises
  and \<^verbatim>\<open>os.remove\<close> raises in the handler, the deletion failure is not swallowed but
  ends the worker thread.
\<close>

theorem cleanup_failure_changes_outcome:
  "snd (transcribe_audio ok_ext file_a default_options) =
     Inr \<lparr>resp_text = ''bom dia'', resp_language = ''pt'',
          resp_language_probability = 99 / 100,
          segments = [\<lparr>sd_start = 0, sd_end = 3 / 2, sd_text = '' bom dia'', sd_words = None\<rparr>]\<rparr> \<and>
   transcribe_audio unlink_fails_ext file_a default_options =
     ([FileCreated ''/tmp/tmpk3x9q2ab.wav'', FileWritten ''/tmp/tmpk3x9q2ab.wav'' ''RIFF'',
       LogInfo ''Transcrevendo arquivo: a.wav'',
       EngineCall ''/tmp/tmpk3x9q2ab.wav'' default_options,
       RemoveFailed ''/tmp/tmpk3x9q2ab.wav'' ''[Errno 13] Permission denied'',
       RemoveFailed ''/tmp/tmpk3x9q2ab.wav'' ''[Errno 13] Permission denied'',
       LogError (transcription_error_msg ''[Errno 13] Permission denied'')],
      Inl (HTTPException 500 (transcription_error_msg ''[Errno 13] Permission denied''))) \<and>
   transcribe_audio_worker [engine_and_remove_fail_iter] [chunk_a] =
     (Died ''[Errno 13] Permission denied'',
      \<lparr>is_transcribing = False, w_queue = [],
       w_events =
         [FileCreated ''temp_chunk_1700000000.wav'',
          FileWritten ''temp_chunk_1700000000.wav'' ''aabb'',
          EngineCall ''temp_chunk_1700000000.wav'' worker_options,
          LogError (transcription_error_msg ''Invalid data found when processing input''),
          RemoveFailed ''temp_chunk_1700000000.wav'' ''[Errno 13] Permission denied'']\<rparr>)"
proof -
  have 1: "snd (transcribe_audio ok_ext file_a default_options) =
     Inr \<lparr>resp_text = ''bom dia'', resp_language = ''pt'',
          resp_language_probability = 99 / 100,
          segments = [\<lparr>sd_start = 0, sd_end = 3 / 2, sd_text = '' bom dia'', sd_words = None\<rparr>]\<rparr>"
    by (simp add: transcribe_audio_a ok_response)
  have 2: "transcribe_audio unlink_fails_ext file_a default_options =
     ([FileCreated ''/tmp/tmpk3x9q2ab.wav'', FileWritten ''/tmp/tmpk3x9q2ab.wav'' ''RIFF'',
       LogInfo ''Transcrevendo arquivo: a.wav'',
       EngineCall ''/tmp/tmpk3x9q2ab.wav'' default_options,
       RemoveFailed ''/tmp/tmpk3x9q2ab.wav'' ''[Errno 13] Permission denied'',
       RemoveFailed ''/tmp/tmpk3x9q2ab.wav'' ''[Errno 13] Permission denied'',
       LogError (transcription_error_msg ''[Errno 13] Permission denied'')],
      Inl (HTTPException 500 (transcription_error_msg ''[Errno 13] Permission denied'')))"
    unfolding transcribe_audio_a_unlink_fails
    by (simp add: transcribe_staged_def unlink_fails_ext_def
        ok_ext_def ok_segments_def ok_info_def default_options_def upload_handler_def Let_def)
  have 3: "transcribe_audio_worker [engine_and_remove_fail_iter] [chunk_a] =
     (Died ''[Errno 13] Permission denied'',
      \<lparr>is_transcribing = False, w_queue = [],
       w_events =
         [FileCreated ''temp_chunk_1700000000.wav'',
          FileWritten ''temp_chunk_1700000000.wav'' ''aabb'',
          EngineCall ''temp_chunk_1700000000.wav'' worker_options,
          LogError (transcription_error_msg ''Invalid data found when processing input''),
          RemoveFailed ''temp_chunk_1700000000.wav'' ''[Errno 13] Permission denied'']\<rparr>)"
    by (simp add: transcribe_audio_worker_def worker_iter_def iter_fields
        process_chunk_engine_and_remove_fail temp_chunk_name_t1 chunk_a_def Let_def)
  from 1 2 3 show ?thesis by blast
qed

text \<open>What does hold: when the loop is left through its condition, the flag is clear and
  the queue is empty.\<close>

lemma transcribe_loop_exit_condition:
  "transcribe_loop its s = (Exited, s') \<Longrightarrow> \<not> is_transcribing s' \<and> w_queue s' = []"
proof (induction its arbitrary: s)
  case Nil
  then show ?case by simp
next
  case (Cons it its)
  obtain st s1 where w: "worker_iter it s = (st, s1)" by (cases "worker_iter it s")
  show ?case
  proof (cases st)
    case Running
    with w Cons.prems have "transcribe_loop its s1 = (Exited, s')" by simp
    then show ?thesis by (rule Cons.IH)
  next
    case Exited
    with w Cons.prems have e: "s1 = s'" by simp
    have "process_chunk it f s0 \<noteq> (Exited, s2)" for f s0 s2
      by (auto simp: process_chunk_def worker_handler_def Let_def
          split: option.splits sum.splits if_splits)
    with w Exited e show ?thesis
      by (auto simp: worker_iter_def Let_def split: if_splits list.splits)
  next
    case (Died x)
    with w Cons.prems show ?thesis by simp
  qed
qed

section \<open>Properties of stopping\<close>

lemma record_body_produced:
  "length (frames (record_body fpc d r)) + length (concat (audio_queue (record_body fpc d r)))
     = Suc (length (frames r) + length (concat (audio_queue r)))"
  by (simp add: record_body_def Let_def)

lemma stop_step_capture [simp]:
  "capture (stop_step x s) = capture s" "capture_thread (stop_step x s) = capture_thread s"
  by (simp_all add: stop_step_def split: stop_pc.splits option.splits)

lemma stop_step_not_recording: "\<not> is_recording s \<Longrightarrow> \<not> is_recording (stop_step x s)"
  by (simp add: stop_step_def split: stop_pc.splits option.splits)

lemma capture_step_flags [simp]:
  "is_recording (capture_step r s) = is_recording s" "stopper (capture_step r s) = stopper s"
  by (simp_all add: capture_step_def split: option.splits capture_pc.splits sum.splits)

lemma step_not_recording: "\<not> is_recording s \<Longrightarrow> \<not> is_recording (step a s)"
  by (cases a) (simp_all add: stop_step_not_recording)

lemma capture_step_potential:
  "\<not> is_recording s \<Longrightarrow>
     produced (capture_step r s) + pending (capture_step r s) \<le> produced s + pending s"
  by (auto simp: capture_step_def produced_def pending_def record_body_produced
      split: option.splits capture_pc.splits sum.splits)

lemma step_potential:
  assumes "\<not> is_recording s"
  shows "produced (step a s) + pending (step a s) \<le> produced s + pending s"
proof (cases a)
  case (Capture r)
  then show ?thesis using capture_step_potential [OF assms, of r] by simp
next
  case (Stop x)
  then show ?thesis by (simp add: produced_def pending_def)
qed

lemma run_potential:
  "\<not> is_recording s \<Longrightarrow> produced (run acts s) + pending (run acts s) \<le> produced s + pending s"
proof (induction acts arbitrary: s)
  case Nil
  then show ?case by simp
next
  case (Cons a acts)
  have "produced (run acts (step a s)) + pending (run acts (step a s))
          \<le> produced (step a s) + pending (step a s)"
    by (rule Cons.IH [OF step_not_recording [OF Cons.prems]])
  also have "\<dots> \<le> produced s + pending s" by (rule step_potential [OF Cons.prems])
  finally show ?case by simp
qed

lemma capture_step_produced_mono: "produced s \<le> produced (capture_step r s)"
  by (auto simp: capture_step_def produced_def record_body_produced
      split: option.splits capture_pc.splits sum.splits)

lemma step_produced_mono: "produced s \<le> produced (step a s)"
proof (cases a)
  case (Capture r)
  then show ?thesis using capture_step_produced_mono [of s r] by simp
next
  case (Stop x)
  then show ?thesis by (simp add: produced_def)
qed

lemma run_produced_mono: "produced s \<le> produced (run acts s)"
proof (induction acts arbitrary: s)
  case Nil
  then show ?case by simp
next
  case (Cons a acts)
  have "produced s \<le> produced (step a s)" by (rule step_produced_mono)
  also have "\<dots> \<le> produced (run acts (step a s))" by (rule Cons.IH)
  finally show ?case by simp
qed

lemma run_append: "run (xs @ ys) s = run ys (run xs s)"
  by (induction xs arbitrary: s) simp_all

lemma step_stop_inv: "stop_inv s \<Longrightarrow> stop_inv (step a s)"
  by (cases a) (auto simp: stop_inv_def stop_step_def split: stop_pc.splits option.splits)

lemma run_stop_inv: "stop_inv s \<Longrightarrow> stop_inv (run acts s)"
  by (induction acts arbitrary: s) (simp_all add: step_stop_inv)

lemma capturing_stop_inv: "stop_inv capturing"
  by (simp add: stop_inv_def capturing_def never_started_def)

lemma returned_not_recording:
  "stopper (run pre capturing) = Returned \<Longrightarrow> \<not> is_recording (run pre capturing)"
  using run_stop_inv [OF capturing_stop_inv, of pre] by (simp add: stop_inv_def)

text \<open>
  C3 (as amended).  \<^verbatim>\<open>stop_recording\<close> clears the two flags, closes the stream if the
  object has one and terminates the audio interface; it does not wait for the capture
  thread.  Called on an object whose capture was never started it touches no stream
  (whatever a stream call would do) and returns, given that \<^verbatim>\<open>terminate\<close> returns.
  After it has returned on a pipeline that was capturing, the flag stays clear and the
  capture loop produces at most one further frame, the one of the iteration it was in;
  if the capture thread was at its loop condition or had finished, it produces none.
\<close>

theorem stop_recording_without_join:
  "(\<forall>x1 x2 x3. run [Stop x1, Stop x2, Stop x3, Stop None] never_started =
      never_started\<lparr>audio_terminated := True, stopper := Returned,
        sys_log := [''Grava'' @ c_cedil @ a_tilde @ ''o interrompida.'']\<rparr>) \<and>
   (stopper (run pre capturing) = Returned \<longrightarrow>
      \<not> is_recording (run (pre @ post) capturing) \<and>
      produced (run pre capturing) \<le> produced (run (pre @ post) capturing) \<and>
      produced (run (pre @ post) capturing) \<le> produced (run pre capturing) + 1) \<and>
   (stopper (run pre capturing) = Returned \<and>
    capture_thread (run pre capturing) \<in> {Some AtCheck, Some Finished} \<longrightarrow>
      produced (run (pre @ post) capturing) = produced (run pre capturing))"
proof -
  have a: "\<forall>x1 x2 x3. run [Stop x1, Stop x2, Stop x3, Stop None] never_started =
      never_started\<lparr>audio_terminated := True, stopper := Returned,
        sys_log := [''Grava'' @ c_cedil @ a_tilde @ ''o interrompida.'']\<rparr>"
    by (simp add: never_started_def stop_step_def)
  have b: "\<not> is_recording (run (pre @ post) capturing) \<and>
      produced (run pre capturing) \<le> produced (run (pre @ post) capturing) \<and>
      produced (run (pre @ post) capturing) \<le> produced (run pre capturing) + 1"
    if r: "stopper (run pre capturing) = Returned"
  proof -
    let ?s = "run pre capturing"
    have n: "\<not> is_recording ?s" by (rule returned_not_recording [OF r])
    have i: "\<not> is_recording (run post ?s)"
      using n by (induction post arbitrary: pre rule: rev_induct)
        (simp_all add: run_append step_not_recording)
    have "pending ?s \<le> 1" by (simp add: pending_def split: option.splits capture_pc.splits)
    with run_potential [OF n, of post] have "produced (run post ?s) \<le> produced ?s + 1" by simp
    with i run_produced_mono [of ?s post] show ?thesis by (simp add: run_append)
  qed
  have c: "produced (run (pre @ post) capturing) = produced (run pre capturing)"
    if r: "stopper (run pre capturing) = Returned"
      and t: "capture_thread (run pre capturing) \<in> {Some AtCheck, Some Finished}"
  proof -
    let ?s = "run pre capturing"
    have n: "\<not> is_recording ?s" by (rule returned_not_recording [OF r])
    have "pending ?s = 0" using t by (auto simp: pending_def)
    with run_potential [OF n, of post] have "produced (run post ?s) \<le> produced ?s" by simp
    with run_produced_mono [of ?s post] show ?thesis by (simp add: run_append)
  qed
  from a b c show ?thesis by blast
qed

lemma stop_race_state:
  "run stop_race capturing =
     capturing\<lparr>is_recording := False, transcribing_flag := False, stream := Some StreamClosed,
       audio_terminated := True, capture_thread := Some (AtBody ''f0''), stopper := Returned,
       sys_log := [''Grava'' @ c_cedil @ a_tilde @ ''o interrompida.'']\<rparr>"
  by (simp add: stop_race_def capturing_def never_started_def capture_step_def stop_step_def)

text \<open>
  C3 as stated fails: in the schedule \<open>stop_race\<close> the stop operation has returned, the
  accumulator of the capture loop is still empty, and the next step of the capture thread
  appends a frame.
\<close>

theorem stop_recording_frame_after_return:
  "stopper (run stop_race capturing) = Returned \<and>
   frames (capture (run stop_race capturing)) = [] \<and>
   frames (capture (run (stop_race @ [Capture (Inr ''f0'')]) capturing)) = [''f0'']"
  by (simp add: run_append stop_race_state)
     (simp add: capturing_def never_started_def capture_step_def record_body_def
        frames_per_chunk_value)

theorem stop_recording_without_join_witness:
  "stopper (run stop_race capturing) = Returned \<and>
   produced (run (stop_race @ [Capture (Inr ''f0''), Capture (Inr ''f0''), Capture (Inr ''f0'')])
      capturing) \<le> produced (run stop_race capturing) + 1 \<and>
   produced (run ((stop_race @ [Capture (Inr ''f0'')]) @ [Capture (Inr ''f0'')]) capturing)
     = produced (run (stop_race @ [Capture (Inr ''f0'')]) capturing)"
proof -
  have r: "stopper (run stop_race capturing) = Returned" by (simp add: stop_race_state)
  have r2: "stopper (run (stop_race @ [Capture (Inr ''f0'')]) capturing) = Returned \<and>
     capture_thread (run (stop_race @ [Capture (Inr ''f0'')]) capturing)
       \<in> {Some AtCheck, Some Finished}"
    by (simp add: run_append stop_race_state) (simp add: capture_step_def capturing_def never_started_def)
  from stop_recording_without_join
         [of stop_race "[Capture (Inr ''f0''), Capture (Inr ''f0''), Capture (Inr ''f0'')]"]
       stop_recording_without_join
         [of "stop_race @ [Capture (Inr ''f0'')]" "[Capture (Inr ''f0'')]"] r r2
  show ?thesis by blast
qed

end
